theory Spec2Isabelle
  imports Complex_Main
begin

section \<open>Interactive pricing component: a model of script.js\<close>

text \<open>
  The script keeps one module-level flag (\<^verbatim>\<open>isYearlyBilling\<close>), four element references
  obtained with \<^verbatim>\<open>document.getElementById\<close>, a constant pricing table and three handlers.
  Each function of the script is a HOL function on an explicit page state; a JavaScript
  exception is a completion value, so a handler that throws is a branch of the model.
\<close>

subsection \<open>Configuration and constants (script.js, lines 1-11)\<close>

text \<open>
  An entry of \<^verbatim>\<open>PRICING_DATA\<close>: \<^verbatim>\<open>{ views: '10K', price: 8 }\<close>.  JavaScript numbers are
  binary64 values.  Every number the script computes is a multiple of 1/4 of small
  magnitude (see \<open>binary64_exact\<close> below), so no operation rounds and the rationals
  give the same results.
\<close>

record pricingInfo =
  views :: string
  price :: rat

text \<open>
  The object literal, in source order.  Its property names are the canonical decimal
  strings of the integers 1 to 5; the slider value is modelled as the integer it denotes,
  so a property access by slider value is a lookup by integer key.
\<close>

definition PRICING_DATA :: "(int \<times> pricingInfo) list" where
  "PRICING_DATA =
     [(1, \<lparr>views = ''10K'', price = 8\<rparr>),
      (2, \<lparr>views = ''50K'', price = 12\<rparr>),
      (3, \<lparr>views = ''100K'', price = 16\<rparr>),
      (4, \<lparr>views = ''500K'', price = 24\<rparr>),
      (5, \<lparr>views = ''1M'', price = 36\<rparr>)]"

definition YEARLY_DISCOUNT :: rat where
  "YEARLY_DISCOUNT = 0.25"

definition DEFAULT_RANGE_VALUE :: int where
  "DEFAULT_RANGE_VALUE = 3"

text \<open>\<^verbatim>\<open>PRICING_DATA[rangeValue]\<close>: the entry, or \<open>None\<close> for \<^verbatim>\<open>undefined\<close>.\<close>

definition PRICING_DATA_get :: "int \<Rightarrow> pricingInfo option" where
  "PRICING_DATA_get rangeValue = map_of PRICING_DATA rangeValue"

text \<open>
  A rational is computed without rounding in binary64 when it is \<open>m / 4\<close> for an
  integer \<open>m\<close> of magnitude below \<open>2 ^ 53\<close>.
\<close>

definition binary64_exact :: "rat \<Rightarrow> bool" where
  "binary64_exact x \<longleftrightarrow> rat_of_int \<lfloor>4 * x\<rfloor> = 4 * x \<and> \<bar>4 * x\<bar> < 2 ^ 53"

subsection \<open>Number to string, as in a template literal\<close>

text \<open>
  \<^verbatim>\<open>`$${finalPrice}`\<close> converts the number with \<^verbatim>\<open>Number::toString\<close>.  For zero and
  for a number with a short terminating decimal expansion and a magnitude from
  \<open>1 / 10 ^ 6\<close> up to, not including, \<open>10 ^ 21\<close>, that is the sign, the decimal digits
  of the integer part and, when the fraction is not zero, a point and the digits of the
  fraction.  The prices of the table, with or without the discount, are integers from
  6 to 36.
\<close>

fun digits :: "nat \<Rightarrow> string" where
  "digits n =
     (if n < 10 then [''0123456789'' ! n]
      else digits (n div 10) @ [''0123456789'' ! (n mod 10)])"

declare digits.simps [simp del]

fun fraction_digits :: "nat \<Rightarrow> rat \<Rightarrow> string" where
  "fraction_digits 0 r = []"
| "fraction_digits (Suc k) r =
     (if r = 0 then []
      else let d = \<lfloor>10 * r\<rfloor>
           in (''0123456789'' ! nat d) # fraction_digits k (10 * r - rat_of_int d))"

definition Number_toString :: "rat \<Rightarrow> string" where
  "Number_toString x =
     (let a = \<bar>x\<bar>; i = \<lfloor>a\<rfloor>; f = a - rat_of_int i
      in (if x < 0 then ''-'' else []) @ digits (nat i) @
         (if f = 0 then [] else ''.'' @ fraction_digits 20 f))"

subsection \<open>DOM elements and state (script.js, lines 13-20)\<close>

text \<open>
  The markup (index.html) is not part of the script, so the four references are
  parameters: \<open>None\<close> is \<^verbatim>\<open>null\<close>, the result of \<^verbatim>\<open>getElementById\<close> when no element has
  the id.  Of each element the state keeps what the script reads or writes:
  \<^verbatim>\<open>textContent\<close> of the two display surfaces, \<^verbatim>\<open>value\<close> of the slider,
  \<^verbatim>\<open>classList\<close> of the toggle button.  The last two fields record which listeners
  \<^verbatim>\<open>initializeComponent\<close> has attached.
\<close>

record page =
  viewCount :: "string option"
  monthPrice :: "string option"
  rangeInput :: "int option"
  discountBtn :: "string list option"
  isYearlyBilling :: bool
  inputListener :: bool
  clickListener :: bool

datatype js_error = TypeError

text \<open>How a call ends: it returns, or it throws.  The page reached is kept in both cases.\<close>

datatype completion = Normal | Throw js_error

text \<open>\<^verbatim>\<open>DOMTokenList.add\<close> and \<^verbatim>\<open>DOMTokenList.remove\<close> on an ordered token set.\<close>

definition classList_add :: "string list \<Rightarrow> string \<Rightarrow> string list" where
  "classList_add tokens t = (if t \<in> set tokens then tokens else tokens @ [t])"

definition classList_remove :: "string list \<Rightarrow> string \<Rightarrow> string list" where
  "classList_remove tokens t = removeAll t tokens"

subsection \<open>Core business logic (script.js, lines 22-40)\<close>

text \<open>The local variable \<^verbatim>\<open>finalPrice\<close> of \<^verbatim>\<open>updatePricing\<close> (lines 32-35).\<close>

definition finalPrice :: "pricingInfo \<Rightarrow> bool \<Rightarrow> rat" where
  "finalPrice info yearly =
     (if yearly then price info * (1 - YEARLY_DISCOUNT) else price info)"

text \<open>
  Reading \<^verbatim>\<open>rangeInput.value\<close> throws a TypeError when the reference is null, and so
  does each assignment to \<^verbatim>\<open>textContent\<close>; the guard \<^verbatim>\<open>if (pricingInfo)\<close> skips both
  assignments when the table has no entry for the value.
\<close>

definition updatePricing :: "page \<Rightarrow> completion \<times> page" where
  "updatePricing p =
     (case rangeInput p of
        None \<Rightarrow> (Throw TypeError, p)
      | Some rangeValue \<Rightarrow>
          (case PRICING_DATA_get rangeValue of
             None \<Rightarrow> (Normal, p)
           | Some info \<Rightarrow>
               (case viewCount p of
                  None \<Rightarrow> (Throw TypeError, p)
                | Some _ \<Rightarrow>
                    (let p1 = p\<lparr>viewCount := Some (views info)\<rparr>
                     in case monthPrice p1 of
                          None \<Rightarrow> (Throw TypeError, p1)
                        | Some _ \<Rightarrow>
                            (Normal,
                             p1\<lparr>monthPrice :=
                                  Some (''$'' @ Number_toString
                                          (finalPrice info (isYearlyBilling p1)))\<rparr>)))))"

subsection \<open>Event handlers (script.js, lines 42-59)\<close>

definition handleRangeChange :: "page \<Rightarrow> completion \<times> page" where
  "handleRangeChange p = updatePricing p"

definition handleDiscountToggle :: "page \<Rightarrow> completion \<times> page" where
  "handleDiscountToggle p =
     (let p1 = p\<lparr>isYearlyBilling := \<not> isYearlyBilling p\<rparr>
      in case discountBtn p1 of
           None \<Rightarrow> (Throw TypeError, p1)
         | Some tokens \<Rightarrow>
             updatePricing
               (p1\<lparr>discountBtn :=
                     Some (if isYearlyBilling p1 then classList_add tokens ''active''
                           else classList_remove tokens ''active'')\<rparr>))"

subsection \<open>Initialization and startup (script.js, lines 61-75)\<close>

text \<open>
  Modelled from the spec: the value sanitization of the slider.  The slider's
  \<^verbatim>\<open>min\<close>, \<^verbatim>\<open>max\<close> and \<^verbatim>\<open>step\<close> attributes are in index.html, which is not among the
  sources; the spec gives min 1, max 5, step 1.  The host puts a value below the minimum
  at the minimum and a value above the maximum at the maximum, so the slider only ever
  holds a value in [1,5].
\<close>

definition value_sanitization :: "int \<Rightarrow> int" where
  "value_sanitization x = max 1 (min 5 x)"

text \<open>
  Modelled from the spec: the value setter of the slider, which stores the sanitized
  value.  It serves the assignment in \<^verbatim>\<open>initializeComponent\<close> and the host's own store
  when the user moves the slider.
\<close>

definition set_rangeInput_value :: "int \<Rightarrow> page \<Rightarrow> page" where
  "set_rangeInput_value x p = p\<lparr>rangeInput := Some (value_sanitization x)\<rparr>"

declare set_rangeInput_value_def [simp]

text \<open>
  The assignment to \<^verbatim>\<open>rangeInput.value\<close> throws when the reference is null, and so
  does \<^verbatim>\<open>addEventListener\<close> on a null reference; an exception of \<open>updatePricing\<close>
  leaves \<open>initializeComponent\<close> before any listener is attached.
\<close>

definition initializeComponent :: "page \<Rightarrow> completion \<times> page" where
  "initializeComponent p =
     (case rangeInput p of
        None \<Rightarrow> (Throw TypeError, p)
      | Some _ \<Rightarrow>
          (case updatePricing (set_rangeInput_value DEFAULT_RANGE_VALUE p) of
             (Throw e, p2) \<Rightarrow> (Throw e, p2)
           | (Normal, p2) \<Rightarrow>
               (let p3 = p2\<lparr>inputListener := True\<rparr>
                in case discountBtn p3 of
                     None \<Rightarrow> (Throw TypeError, p3)
                   | Some _ \<Rightarrow> (Normal, p3\<lparr>clickListener := True\<rparr>))))"

text \<open>
  The top level of the script: the four references as the document gives them, the flag
  \<open>False\<close>, no listener yet.
\<close>

definition script :: "string option \<Rightarrow> string option \<Rightarrow> int option \<Rightarrow> string list option \<Rightarrow> page" where
  "script v m r d =
     \<lparr>viewCount = v, monthPrice = m, rangeInput = r, discountBtn = d,
      isYearlyBilling = False, inputListener = False, clickListener = False\<rparr>"

text \<open>
  \<^verbatim>\<open>DOMContentLoaded\<close> runs \<^verbatim>\<open>initializeComponent\<close>; an exception of a listener is
  reported by the host and the page stays as the listener left it.
\<close>

definition startup :: "string option \<Rightarrow> string option \<Rightarrow> int option \<Rightarrow> string list option \<Rightarrow> page" where
  "startup v m r d = snd (initializeComponent (script v m r d))"

subsection \<open>Input events\<close>

text \<open>
  \<open>Input n\<close>: the slider is moved to \<open>n\<close>; the host stores the sanitized value and
  fires \<^verbatim>\<open>input\<close> on the slider.  \<open>Click\<close>: the user activates the toggle button.
\<close>

datatype event = Input int | Click

fun dispatch :: "event \<Rightarrow> page \<Rightarrow> page" where
  "dispatch (Input n) p =
     (case rangeInput p of
        None \<Rightarrow> p
      | Some _ \<Rightarrow>
          (let p1 = set_rangeInput_value n p
           in if inputListener p1 then snd (handleRangeChange p1) else p1))"
| "dispatch Click p =
     (case discountBtn p of
        None \<Rightarrow> p
      | Some _ \<Rightarrow> if clickListener p then snd (handleDiscountToggle p) else p)"

fun run :: "event list \<Rightarrow> page \<Rightarrow> page" where
  "run [] p = p"
| "run (e # es) p = run es (dispatch e p)"

text \<open>The two operations of the specification, as events on the page.\<close>

definition setTier :: "int \<Rightarrow> page \<Rightarrow> page" where
  "setTier n p = dispatch (Input n) p"

definition toggleBilling :: "page \<Rightarrow> page" where
  "toggleBilling p = dispatch Click p"

text \<open>All four references are elements, and both listeners are attached.\<close>

definition wired :: "page \<Rightarrow> bool" where
  "wired p \<longleftrightarrow>
     viewCount p \<noteq> None \<and> monthPrice p \<noteq> None \<and> rangeInput p \<noteq> None \<and>
     discountBtn p \<noteq> None \<and> inputListener p \<and> clickListener p"

text \<open>The toggle button carries the class \<^verbatim>\<open>active\<close>.\<close>

definition marked :: "page \<Rightarrow> bool" where
  "marked p = (case discountBtn p of None \<Rightarrow> False | Some tokens \<Rightarrow> ''active'' \<in> set tokens)"

section \<open>The pricing table\<close>

lemma PRICING_DATA_get_simps:
  "PRICING_DATA_get 1 = Some \<lparr>views = ''10K'', price = 8\<rparr>"
  "PRICING_DATA_get 2 = Some \<lparr>views = ''50K'', price = 12\<rparr>"
  "PRICING_DATA_get 3 = Some \<lparr>views = ''100K'', price = 16\<rparr>"
  "PRICING_DATA_get 4 = Some \<lparr>views = ''500K'', price = 24\<rparr>"
  "PRICING_DATA_get 5 = Some \<lparr>views = ''1M'', price = 36\<rparr>"
  by (simp_all add: PRICING_DATA_get_def PRICING_DATA_def)

lemma PRICING_DATA_get_None:
  "n < 1 \<or> 5 < n \<Longrightarrow> PRICING_DATA_get n = None"
  by (auto simp: PRICING_DATA_get_def PRICING_DATA_def)

lemma value_sanitization_id:
  "1 \<le> n \<Longrightarrow> n \<le> 5 \<Longrightarrow> value_sanitization n = n"
  by (simp add: value_sanitization_def)

lemma value_sanitization_range:
  "1 \<le> value_sanitization n \<and> value_sanitization n \<le> 5"
  by (simp add: value_sanitization_def)

lemma value_sanitization_outside:
  "n < 1 \<Longrightarrow> value_sanitization n = 1" "5 < n \<Longrightarrow> value_sanitization n = 5"
  by (simp_all add: value_sanitization_def)

lemma in_range_cases:
  "1 \<le> n \<Longrightarrow> n \<le> 5 \<Longrightarrow> n = 1 \<or> n = 2 \<or> n = 3 \<or> n = 4 \<or> n = (5::int)"
  by arith

section \<open>What \<open>updatePricing\<close> changes\<close>

lemma updatePricing_frame [simp]:
  "rangeInput (snd (updatePricing p)) = rangeInput p"
  "discountBtn (snd (updatePricing p)) = discountBtn p"
  "isYearlyBilling (snd (updatePricing p)) = isYearlyBilling p"
  "inputListener (snd (updatePricing p)) = inputListener p"
  "clickListener (snd (updatePricing p)) = clickListener p"
  by (simp_all add: updatePricing_def Let_def split: option.splits)

lemma updatePricing_surfaces_None [simp]:
  "viewCount (snd (updatePricing p)) = None \<longleftrightarrow> viewCount p = None"
  "monthPrice (snd (updatePricing p)) = None \<longleftrightarrow> monthPrice p = None"
  by (auto simp: updatePricing_def Let_def split: option.splits)

lemma updatePricing_Normal:
  "rangeInput p \<noteq> None \<Longrightarrow> viewCount p \<noteq> None \<Longrightarrow> monthPrice p \<noteq> None \<Longrightarrow>
   fst (updatePricing p) = Normal"
  by (auto simp: updatePricing_def Let_def split: option.splits)

lemma updatePricing_entry:
  "rangeInput p = Some n \<Longrightarrow> PRICING_DATA_get n = Some info \<Longrightarrow>
   viewCount p \<noteq> None \<Longrightarrow> monthPrice p \<noteq> None \<Longrightarrow>
   updatePricing p =
     (Normal, p\<lparr>viewCount := Some (views info),
                monthPrice := Some (''$'' @ Number_toString (finalPrice info (isYearlyBilling p)))\<rparr>)"
  by (auto simp: updatePricing_def Let_def split: option.splits)

lemma updatePricing_no_entry:
  "rangeInput p = Some n \<Longrightarrow> PRICING_DATA_get n = None \<Longrightarrow> updatePricing p = (Normal, p)"
  by (simp add: updatePricing_def)

text \<open>Rendering twice in a row writes the same texts the second time.\<close>

lemma updatePricing_idem:
  "fst (updatePricing q) = Normal \<Longrightarrow>
   updatePricing (snd (updatePricing q)) = (Normal, snd (updatePricing q))"
  by (auto simp: updatePricing_def Let_def split: option.splits)

section \<open>Prices and their texts\<close>

lemma price_texts:
  "Number_toString 8 = ''8''" "Number_toString 12 = ''12''" "Number_toString 16 = ''16''"
  "Number_toString 24 = ''24''" "Number_toString 36 = ''36''"
  "Number_toString 6 = ''6''" "Number_toString 9 = ''9''" "Number_toString 18 = ''18''"
  "Number_toString 27 = ''27''"
  by (simp_all add: Number_toString_def digits.simps)

lemma finalPrice_table:
  "finalPrice \<lparr>views = w, price = 8\<rparr> b = (if b then 6 else 8)"
  "finalPrice \<lparr>views = w, price = 12\<rparr> b = (if b then 9 else 12)"
  "finalPrice \<lparr>views = w, price = 16\<rparr> b = (if b then 12 else 16)"
  "finalPrice \<lparr>views = w, price = 24\<rparr> b = (if b then 18 else 24)"
  "finalPrice \<lparr>views = w, price = 36\<rparr> b = (if b then 27 else 36)"
  by (simp_all add: finalPrice_def YEARLY_DISCOUNT_def)

lemma pricing_entry_exists:
  "1 \<le> n \<Longrightarrow> n \<le> 5 \<Longrightarrow> \<exists>info. PRICING_DATA_get n = Some info"
  by (drule (1) in_range_cases) (auto simp: PRICING_DATA_get_simps)

text \<open>
  For each tier the discounted price is the base price times 0.75, and the numbers
  involved are computed without rounding.
\<close>

lemma table_exact:
  assumes "1 \<le> n" "n \<le> 5"
  shows "\<exists>info. PRICING_DATA_get n = Some info \<and>
           finalPrice info b = price info * (if b then 0.75 else 1) \<and>
           binary64_exact (price info) \<and> binary64_exact (price info * (1 - YEARLY_DISCOUNT))"
proof -
  from assms have "n = 1 \<or> n = 2 \<or> n = 3 \<or> n = 4 \<or> n = 5"
    by (rule in_range_cases)
  then show ?thesis
    by (elim disjE)
      (simp_all add: PRICING_DATA_get_simps finalPrice_def YEARLY_DISCOUNT_def binary64_exact_def)
qed

section \<open>The page after startup and after each event\<close>

lemma startup_page:
  "startup (Some v) (Some m) (Some r) (Some d) =
     \<lparr>viewCount = Some ''100K'', monthPrice = Some ''$16'', rangeInput = Some 3,
      discountBtn = Some d, isYearlyBilling = False, inputListener = True,
      clickListener = True\<rparr>"
  by (simp add: startup_def initializeComponent_def script_def DEFAULT_RANGE_VALUE_def
      value_sanitization_def updatePricing_def PRICING_DATA_get_simps finalPrice_table
      price_texts)

lemma wired_startup:
  "wired (startup (Some v) (Some m) (Some r) (Some d))"
  by (simp add: startup_page wired_def)

lemma setTier_wired:
  "wired p \<Longrightarrow>
   setTier n p = snd (updatePricing (p\<lparr>rangeInput := Some (value_sanitization n)\<rparr>))"
  by (auto simp: wired_def setTier_def handleRangeChange_def)

lemma toggleBilling_wired:
  "wired p \<Longrightarrow> discountBtn p = Some tokens \<Longrightarrow>
   toggleBilling p =
     snd (updatePricing
       (p\<lparr>isYearlyBilling := \<not> isYearlyBilling p,
          discountBtn := Some (if isYearlyBilling p then classList_remove tokens ''active''
                               else classList_add tokens ''active'')\<rparr>))"
  by (auto simp: wired_def toggleBilling_def handleDiscountToggle_def Let_def)

lemma toggled_startup_page:
  "toggleBilling (startup (Some v) (Some m) (Some r) (Some [])) =
     \<lparr>viewCount = Some ''100K'', monthPrice = Some ''$12'', rangeInput = Some 3,
      discountBtn = Some [''active''], isYearlyBilling = True, inputListener = True,
      clickListener = True\<rparr>"
  by (simp add: startup_page toggleBilling_def handleDiscountToggle_def classList_add_def
      updatePricing_def PRICING_DATA_get_simps finalPrice_table price_texts)

lemma setTier_entry:
  assumes "wired p" "1 \<le> n" "n \<le> 5" "PRICING_DATA_get n = Some info"
  shows "setTier n p =
     p\<lparr>rangeInput := Some n, viewCount := Some (views info),
       monthPrice := Some (''$'' @ Number_toString (finalPrice info (isYearlyBilling p)))\<rparr>"
  using assms
  by (simp add: setTier_wired wired_def value_sanitization_id
      updatePricing_entry [where n = n and info = info])

lemma wired_setTier:
  "wired p \<Longrightarrow> wired (setTier n p)"
  by (simp add: setTier_wired) (simp add: wired_def)

lemma wired_toggleBilling:
  assumes "wired p"
  shows "wired (toggleBilling p)"
proof -
  from assms obtain tokens where "discountBtn p = Some tokens"
    by (auto simp: wired_def)
  with assms show ?thesis
    by (simp add: toggleBilling_wired) (simp add: wired_def)
qed

text \<open>
  A slider move below 1 or above 5 is a move to 1 or to 5: the host has sanitized the
  value before the handler runs.
\<close>

lemma setTier_outside:
  "wired p \<Longrightarrow> n < 1 \<Longrightarrow> setTier n p = setTier 1 p"
  "wired p \<Longrightarrow> 5 < n \<Longrightarrow> setTier n p = setTier 5 p"
  by (simp_all add: setTier_wired value_sanitization_outside value_sanitization_id)

lemma wired_dispatch:
  "wired p \<Longrightarrow> wired (dispatch e p)"
  using wired_setTier [of p] wired_toggleBilling [of p]
  by (cases e) (simp_all only: setTier_def toggleBilling_def)

lemma toggleBilling_twice_flag:
  assumes w: "wired p"
  shows "isYearlyBilling (toggleBilling (toggleBilling p)) = isYearlyBilling p"
proof -
  from w obtain t where t: "discountBtn p = Some t"
    by (auto simp: wired_def)
  from w have w': "wired (toggleBilling p)"
    by (rule wired_toggleBilling)
  then obtain t' where t': "discountBtn (toggleBilling p) = Some t'"
    by (auto simp: wired_def)
  have "isYearlyBilling (toggleBilling p) = (\<not> isYearlyBilling p)"
    using w t by (simp add: toggleBilling_wired)
  moreover have "isYearlyBilling (toggleBilling (toggleBilling p)) =
      (\<not> isYearlyBilling (toggleBilling p))"
    using w' t' by (simp add: toggleBilling_wired)
  ultimately show ?thesis by simp
qed

lemma toggleBilling_price:
  assumes "wired p" "rangeInput p = Some s" "PRICING_DATA_get s = Some info"
  shows "monthPrice (toggleBilling p) =
     Some (''$'' @ Number_toString (finalPrice info (\<not> isYearlyBilling p)))"
proof -
  from assms(1) obtain t where t: "discountBtn p = Some t"
    by (auto simp: wired_def)
  let ?q = "p\<lparr>isYearlyBilling := \<not> isYearlyBilling p,
          discountBtn := Some (if isYearlyBilling p then classList_remove t ''active''
                               else classList_add t ''active'')\<rparr>"
  have "updatePricing ?q =
     (Normal, ?q\<lparr>viewCount := Some (views info),
                monthPrice := Some (''$'' @ Number_toString (finalPrice info (isYearlyBilling ?q)))\<rparr>)"
    using assms by (intro updatePricing_entry [where n = s]) (simp_all add: wired_def)
  then show ?thesis
    using assms(1) t by (simp add: toggleBilling_wired)
qed

text \<open>
  After every event on a wired page the two display surfaces are current: rendering
  again changes nothing.  So it is in every state reached from startup.
\<close>

lemma current_dispatch:
  assumes "wired p"
  shows "updatePricing (dispatch e p) = (Normal, dispatch e p)"
proof (cases e)
  case (Input n)
  have "fst (updatePricing (p\<lparr>rangeInput := Some (value_sanitization n)\<rparr>)) = Normal"
    using assms by (intro updatePricing_Normal) (simp_all add: wired_def)
  then show ?thesis
    using assms setTier_wired [OF assms, of n]
    by (simp only: Input setTier_def updatePricing_idem)
next
  case Click
  from assms obtain t where t: "discountBtn p = Some t"
    by (auto simp: wired_def)
  let ?q = "p\<lparr>isYearlyBilling := \<not> isYearlyBilling p,
          discountBtn := Some (if isYearlyBilling p then classList_remove t ''active''
                               else classList_add t ''active'')\<rparr>"
  have "fst (updatePricing ?q) = Normal"
    using assms by (intro updatePricing_Normal) (simp_all add: wired_def)
  then have "updatePricing (snd (updatePricing ?q)) = (Normal, snd (updatePricing ?q))"
    by (rule updatePricing_idem)
  then show ?thesis
    using toggleBilling_wired [OF assms t] by (simp only: Click toggleBilling_def)
qed

lemma current_run:
  "wired p \<Longrightarrow> updatePricing p = (Normal, p) \<Longrightarrow>
   updatePricing (run es p) = (Normal, run es p)"
proof (induction es arbitrary: p)
  case Nil
  then show ?case by simp
next
  case (Cons e es)
  have "updatePricing (run es (dispatch e p)) = (Normal, run es (dispatch e p))"
    using Cons.prems(1) by (intro Cons.IH wired_dispatch current_dispatch)
  then show ?case by simp
qed

lemma current_reachable:
  "updatePricing (run es (startup (Some v) (Some m) (Some r) (Some d))) =
     (Normal, run es (startup (Some v) (Some m) (Some r) (Some d)))"
  by (rule current_run [OF wired_startup])
    (simp add: startup_page updatePricing_def PRICING_DATA_get_simps finalPrice_table price_texts)

text \<open>The marker after a toggle, and what a slider move leaves alone.\<close>

lemma marked_toggleBilling:
  assumes "wired p"
  shows "marked (toggleBilling p) = isYearlyBilling (toggleBilling p)"
proof -
  from assms obtain t where "discountBtn p = Some t"
    by (auto simp: wired_def)
  with assms show ?thesis
    by (simp add: toggleBilling_wired marked_def classList_add_def classList_remove_def)
qed

lemma marked_setTier:
  "wired p \<Longrightarrow> marked (setTier n p) = marked p"
  by (simp add: setTier_wired marked_def)

lemma flag_setTier:
  "wired p \<Longrightarrow> isYearlyBilling (setTier n p) = isYearlyBilling p"
  by (simp add: setTier_wired)

lemma marked_run:
  "wired p \<Longrightarrow> marked p = isYearlyBilling p \<or> Click \<in> set es \<Longrightarrow>
   marked (run es p) = isYearlyBilling (run es p)"
proof (induction es arbitrary: p)
  case Nil
  then show ?case by simp
next
  case (Cons e es)
  have w: "wired (dispatch e p)"
    using Cons.prems(1) by (rule wired_dispatch)
  show ?case
  proof (cases e)
    case (Input n)
    have "marked (dispatch e p) = marked p" "isYearlyBilling (dispatch e p) = isYearlyBilling p"
      using Cons.prems(1) marked_setTier [of p n] flag_setTier [of p n]
      by (simp_all only: Input setTier_def)
    with Cons.prems(2) Input
    have "marked (dispatch e p) = isYearlyBilling (dispatch e p) \<or> Click \<in> set es"
      by auto
    with w have "marked (run es (dispatch e p)) = isYearlyBilling (run es (dispatch e p))"
      by (rule Cons.IH)
    then show ?thesis by simp
  next
    case Click
    have "marked (dispatch e p) = isYearlyBilling (dispatch e p)"
      using marked_toggleBilling [OF Cons.prems(1)] by (simp only: Click toggleBilling_def)
    then have "marked (dispatch e p) = isYearlyBilling (dispatch e p) \<or> Click \<in> set es"
      by simp
    with w have "marked (run es (dispatch e p)) = isYearlyBilling (run es (dispatch e p))"
      by (rule Cons.IH)
    then show ?thesis by simp
  qed
qed

section \<open>Properties of the component\<close>

text \<open>
  C1, as the script has it.  For every tier id outside [1,5], 0 and 6 among them,
  \<open>updatePricing\<close> with that range value, and so the handler of the slider's input
  event, does not fail: it returns normally and no error is raised.  The call leaves the
  page as it found it: it does not alter the selected tier and writes to neither
  display surface.
\<close>

theorem setTier_invalid_silent:
  assumes "n < 1 \<or> 5 < n" "rangeInput p = Some n"
  shows "handleRangeChange p = (Normal, p) \<and> updatePricing p = (Normal, p) \<and>
         rangeInput (snd (handleRangeChange p)) = Some n \<and>
         viewCount (snd (handleRangeChange p)) = viewCount p \<and>
         monthPrice (snd (handleRangeChange p)) = monthPrice p"
proof -
  from assms(1) have "PRICING_DATA_get n = None"
    by (rule PRICING_DATA_get_None)
  with assms(2) have "updatePricing p = (Normal, p)"
    by (rule updatePricing_no_entry)
  with assms(2) show ?thesis
    by (simp add: handleRangeChange_def)
qed

theorem setTier_invalid_silent_witness:
  "((0::int) < 1 \<or> 5 < (0::int)) \<and>
   rangeInput ((startup (Some ''0'') (Some ''0'') (Some 1) (Some []))\<lparr>rangeInput := Some 0\<rparr>) =
     Some 0 \<and>
   handleRangeChange
     ((startup (Some ''0'') (Some ''0'') (Some 1) (Some []))\<lparr>rangeInput := Some 0\<rparr>) =
     (Normal, (startup (Some ''0'') (Some ''0'') (Some 1) (Some []))\<lparr>rangeInput := Some 0\<rparr>)"
proof -
  let ?p = "(startup (Some ''0'') (Some ''0'') (Some 1) (Some []))\<lparr>rangeInput := Some 0\<rparr>"
  have h: "(0::int) < 1 \<or> 5 < (0::int)"
    by simp
  have r: "rangeInput ?p = Some 0"
    by simp
  from setTier_invalid_silent [OF h r] h r show ?thesis
    by simp
qed

text \<open>
  With the slider at 0 or at 6 on the page reached by startup, the handler does not
  fail: its completion is \<open>Normal\<close>.
\<close>

theorem setTier_invalid_counterexample:
  "fst (handleRangeChange
     ((startup (Some ''0'') (Some ''0'') (Some 1) (Some []))\<lparr>rangeInput := Some 0\<rparr>)) = Normal \<and>
   fst (handleRangeChange
     ((startup (Some ''0'') (Some ''0'') (Some 1) (Some []))\<lparr>rangeInput := Some 6\<rparr>)) = Normal"
  by (simp add: handleRangeChange_def startup_page updatePricing_def PRICING_DATA_get_None)

text \<open>
  C2.  For every tier id in [1,5] and both values of the billing flag, the price
  \<open>updatePricing\<close> computes is the base price of the tier times 0.75 when the flag is
  set and times 1 when it is not, exactly: the base price, the factor and the product
  are computed without rounding, and the price surface shows the text of that number.
\<close>

theorem displayed_price_exact:
  assumes "1 \<le> n" "n \<le> 5" "rangeInput p = Some n" "viewCount p \<noteq> None" "monthPrice p \<noteq> None"
  shows "\<exists>info. PRICING_DATA_get n = Some info \<and>
           finalPrice info (isYearlyBilling p) =
             price info * (if isYearlyBilling p then 0.75 else 1) \<and>
           binary64_exact (price info) \<and> binary64_exact YEARLY_DISCOUNT \<and>
           binary64_exact (1 - YEARLY_DISCOUNT) \<and>
           binary64_exact (price info * (1 - YEARLY_DISCOUNT)) \<and>
           monthPrice (snd (updatePricing p)) =
             Some (''$'' @ Number_toString
                    (price info * (if isYearlyBilling p then 0.75 else 1)))"
proof -
  from table_exact [OF assms(1,2), of "isYearlyBilling p"] obtain info where
    info: "PRICING_DATA_get n = Some info"
      "finalPrice info (isYearlyBilling p) = price info * (if isYearlyBilling p then 0.75 else 1)"
      "binary64_exact (price info)" "binary64_exact (price info * (1 - YEARLY_DISCOUNT))"
    by blast
  have "binary64_exact YEARLY_DISCOUNT" "binary64_exact (1 - YEARLY_DISCOUNT)"
    by (simp_all add: binary64_exact_def YEARLY_DISCOUNT_def)
  moreover have "monthPrice (snd (updatePricing p)) =
      Some (''$'' @ Number_toString (finalPrice info (isYearlyBilling p)))"
    using assms(3-5) info(1) by (simp add: updatePricing_entry [where n = n and info = info])
  ultimately show ?thesis
    using info by (intro exI [of _ info]) simp
qed

theorem displayed_price_exact_witness:
  "(1::int) \<le> 3 \<and> (3::int) \<le> 5 \<and>
   isYearlyBilling (toggleBilling (startup (Some ''0'') (Some ''0'') (Some 1) (Some []))) \<and>
   (\<exists>info. PRICING_DATA_get 3 = Some info \<and>
      monthPrice (snd (updatePricing
        (toggleBilling (startup (Some ''0'') (Some ''0'') (Some 1) (Some []))))) =
        Some (''$'' @ Number_toString (price info * 0.75)))"
  using displayed_price_exact
    [of 3 "toggleBilling (startup (Some ''0'') (Some ''0'') (Some 1) (Some []))"]
  by (simp add: toggled_startup_page) blast

text \<open>
  C3.  From the page reached by startup, moving the slider to 4 gives the view count
  "500K" and the price "$24"; the toggle then gives the price "$18" and leaves the
  view count "500K"; moving the slider to 2 then gives the view count "50K" and the
  price "$9", the yearly discount still applied.
\<close>

theorem scenario:
  "viewCount (setTier 4 (startup (Some v) (Some m) (Some r) (Some d))) = Some ''500K'' \<and>
   monthPrice (setTier 4 (startup (Some v) (Some m) (Some r) (Some d))) = Some ''$24'' \<and>
   monthPrice (toggleBilling (setTier 4 (startup (Some v) (Some m) (Some r) (Some d)))) = Some ''$18'' \<and>
   viewCount (toggleBilling (setTier 4 (startup (Some v) (Some m) (Some r) (Some d)))) = Some ''500K'' \<and>
   viewCount (setTier 2 (toggleBilling (setTier 4 (startup (Some v) (Some m) (Some r) (Some d))))) = Some ''50K'' \<and>
   monthPrice (setTier 2 (toggleBilling (setTier 4 (startup (Some v) (Some m) (Some r) (Some d))))) = Some ''$9'' \<and>
   isYearlyBilling (setTier 2 (toggleBilling (setTier 4 (startup (Some v) (Some m) (Some r) (Some d)))))"
  by (simp add: setTier_def toggleBilling_def startup_page handleRangeChange_def
      handleDiscountToggle_def value_sanitization_def updatePricing_def
      PRICING_DATA_get_simps finalPrice_table price_texts)

text \<open>
  C4.  Whatever the markup shows at first, once \<open>initializeComponent\<close> has run (and it
  returns normally) and before any event, the slider holds 3, the billing flag is
  false, the view count reads "100K" and the price reads "$16".
\<close>

theorem initial_state:
  "fst (initializeComponent (script (Some v) (Some m) (Some r) (Some d))) = Normal \<and>
   rangeInput (startup (Some v) (Some m) (Some r) (Some d)) = Some 3 \<and>
   isYearlyBilling (startup (Some v) (Some m) (Some r) (Some d)) = False \<and>
   viewCount (startup (Some v) (Some m) (Some r) (Some d)) = Some ''100K'' \<and>
   monthPrice (startup (Some v) (Some m) (Some r) (Some d)) = Some ''$16''"
  by (simp add: startup_def initializeComponent_def script_def DEFAULT_RANGE_VALUE_def
      value_sanitization_def updatePricing_def PRICING_DATA_get_simps finalPrice_table
      price_texts)

text \<open>
  C5.  On a wired page in state \<open>(s, b)\<close>, \<open>setTier n\<close> with \<open>n\<close> in [1,5] leads to
  \<open>(n, b)\<close> and \<open>toggleBilling\<close> leads to \<open>(s, \<not> b)\<close>; the page stays wired, so
  transitions chain.  This holds for all \<open>s\<close>, those in [1,5] in particular, and
  \<open>setTier\<close> leaves the billing flag alone for every \<open>n\<close>.
\<close>

theorem transitions:
  assumes "wired p" "rangeInput p = Some s"
  shows "(1 \<le> n \<and> n \<le> 5 \<longrightarrow> rangeInput (setTier n p) = Some n) \<and>
         isYearlyBilling (setTier n p) = isYearlyBilling p \<and>
         rangeInput (toggleBilling p) = Some s \<and>
         isYearlyBilling (toggleBilling p) = (\<not> isYearlyBilling p) \<and>
         wired (setTier n p) \<and> wired (toggleBilling p)"
proof -
  from assms(1) obtain tokens where "discountBtn p = Some tokens"
    by (auto simp: wired_def)
  with assms have "rangeInput (setTier n p) = Some (value_sanitization n)"
    "isYearlyBilling (setTier n p) = isYearlyBilling p"
    "rangeInput (toggleBilling p) = Some s"
    "isYearlyBilling (toggleBilling p) = (\<not> isYearlyBilling p)"
    by (simp_all add: setTier_wired toggleBilling_wired)
  with assms(1) show ?thesis
    by (simp add: wired_setTier wired_toggleBilling value_sanitization_id)
qed

theorem transitions_witness:
  "wired (startup (Some ''0'') (Some ''0'') (Some 1) (Some [])) \<and>
   rangeInput (startup (Some ''0'') (Some ''0'') (Some 1) (Some [])) = Some 3 \<and>
   (1::int) \<le> 4 \<and> (4::int) \<le> 5 \<and>
   rangeInput (setTier 4 (startup (Some ''0'') (Some ''0'') (Some 1) (Some []))) = Some 4 \<and>
   isYearlyBilling (setTier 4 (startup (Some ''0'') (Some ''0'') (Some 1) (Some []))) = False \<and>
   rangeInput (toggleBilling (startup (Some ''0'') (Some ''0'') (Some 1) (Some []))) = Some 3 \<and>
   isYearlyBilling (toggleBilling (startup (Some ''0'') (Some ''0'') (Some 1) (Some []))) = True"
  using transitions [OF wired_startup, of "''0''" "''0''" 1 "[]" 3 4]
  by (simp add: wired_startup) (simp add: startup_page)

text \<open>
  C6.  On a wired page whose slider is at a tier in [1,5], two toggles in succession
  restore the billing flag, and the price surface then shows the price of the original
  state; when the price surface was current before, it shows the same text as before.
\<close>

theorem double_toggle:
  assumes "wired p" "rangeInput p = Some s" "1 \<le> s" "s \<le> 5"
  shows "isYearlyBilling (toggleBilling (toggleBilling p)) = isYearlyBilling p \<and>
         monthPrice (toggleBilling (toggleBilling p)) = monthPrice (snd (updatePricing p)) \<and>
         (monthPrice (snd (updatePricing p)) = monthPrice p \<longrightarrow>
            monthPrice (toggleBilling (toggleBilling p)) = monthPrice p)"
proof -
  from pricing_entry_exists [OF assms(3,4)] obtain info where
    info: "PRICING_DATA_get s = Some info" ..
  have flag: "isYearlyBilling (toggleBilling (toggleBilling p)) = isYearlyBilling p"
    using assms(1) by (rule toggleBilling_twice_flag)
  have w': "wired (toggleBilling p)"
    using assms(1) by (rule wired_toggleBilling)
  from assms(1) obtain t where t: "discountBtn p = Some t"
    by (auto simp: wired_def)
  have r': "rangeInput (toggleBilling p) = Some s"
    using assms(1,2) t by (simp add: toggleBilling_wired)
  have f': "isYearlyBilling (toggleBilling p) = (\<not> isYearlyBilling p)"
    using assms(1) t by (simp add: toggleBilling_wired)
  have "monthPrice (toggleBilling (toggleBilling p)) =
      Some (''$'' @ Number_toString (finalPrice info (isYearlyBilling p)))"
    using toggleBilling_price [OF w' r' info] f' by simp
  moreover have "monthPrice (snd (updatePricing p)) =
      Some (''$'' @ Number_toString (finalPrice info (isYearlyBilling p)))"
    using assms(1,2) info
    by (simp add: updatePricing_entry [where n = s and info = info] wired_def)
  ultimately show ?thesis
    using flag by simp
qed

theorem double_toggle_witness:
  "wired (startup (Some ''0'') (Some ''0'') (Some 1) (Some [])) \<and>
   rangeInput (startup (Some ''0'') (Some ''0'') (Some 1) (Some [])) = Some 3 \<and>
   (1::int) \<le> 3 \<and> (3::int) \<le> 5 \<and>
   monthPrice (snd (updatePricing (startup (Some ''0'') (Some ''0'') (Some 1) (Some [])))) =
     monthPrice (startup (Some ''0'') (Some ''0'') (Some 1) (Some [])) \<and>
   isYearlyBilling (toggleBilling (toggleBilling
       (startup (Some ''0'') (Some ''0'') (Some 1) (Some [])))) =
     isYearlyBilling (startup (Some ''0'') (Some ''0'') (Some 1) (Some [])) \<and>
   monthPrice (toggleBilling (toggleBilling
       (startup (Some ''0'') (Some ''0'') (Some 1) (Some [])))) =
     monthPrice (startup (Some ''0'') (Some ''0'') (Some 1) (Some []))"
proof -
  let ?p = "startup (Some ''0'') (Some ''0'') (Some 1) (Some [])"
  have w: "wired ?p"
    by (rule wired_startup)
  have r: "rangeInput ?p = Some 3"
    by (simp add: startup_page)
  have c: "monthPrice (snd (updatePricing ?p)) = monthPrice ?p"
    by (simp add: current_reachable [of "[]", simplified])
  from double_toggle [OF w r] c w r show ?thesis
    by simp
qed

text \<open>
  C7.  On a wired page, \<open>setTier 1\<close> gives the label "10K" with the price "$8" when
  billing is monthly and "$6" when it is yearly, and \<open>setTier 5\<close> gives the label "1M"
  with the price "$36" when billing is monthly and "$27" when it is yearly.
\<close>

theorem boundary_tiers:
  assumes "wired p"
  shows "viewCount (setTier 1 p) = Some ''10K'' \<and>
         monthPrice (setTier 1 p) = Some (if isYearlyBilling p then ''$6'' else ''$8'') \<and>
         viewCount (setTier 5 p) = Some ''1M'' \<and>
         monthPrice (setTier 5 p) = Some (if isYearlyBilling p then ''$27'' else ''$36'')"
  using assms
  by (simp add: setTier_entry [OF _ _ _ PRICING_DATA_get_simps(1)]
      setTier_entry [OF _ _ _ PRICING_DATA_get_simps(5)] finalPrice_table price_texts)

theorem boundary_tiers_witness:
  "wired (startup (Some ''0'') (Some ''0'') (Some 1) (Some [])) \<and>
   \<not> isYearlyBilling (startup (Some ''0'') (Some ''0'') (Some 1) (Some [])) \<and>
   viewCount (setTier 1 (startup (Some ''0'') (Some ''0'') (Some 1) (Some []))) = Some ''10K'' \<and>
   monthPrice (setTier 1 (startup (Some ''0'') (Some ''0'') (Some 1) (Some []))) = Some ''$8'' \<and>
   viewCount (setTier 5 (startup (Some ''0'') (Some ''0'') (Some 1) (Some []))) = Some ''1M'' \<and>
   monthPrice (setTier 5 (startup (Some ''0'') (Some ''0'') (Some 1) (Some []))) = Some ''$36''"
  using boundary_tiers [OF wired_startup, of "''0''" "''0''" 1 "[]"]
  by (simp add: wired_startup) (simp add: startup_page)

text \<open>
  C8.  The table has exactly the keys 1, 2, 3, 4, 5, each once, an entry is found for
  an id exactly when the id lies in [1,5], and for ids \<open>i \<le> j\<close> in that range the base
  price of \<open>i\<close> is at most the base price of \<open>j\<close>.
\<close>

theorem pricing_table_monotone:
  "map fst PRICING_DATA = [1, 2, 3, 4, 5] \<and> distinct (map fst PRICING_DATA) \<and>
   (\<forall>n. PRICING_DATA_get n \<noteq> None \<longleftrightarrow> 1 \<le> n \<and> n \<le> 5) \<and>
   (\<forall>i j. 1 \<le> i \<and> i \<le> j \<and> j \<le> 5 \<longrightarrow>
      (\<exists>a b. PRICING_DATA_get i = Some a \<and> PRICING_DATA_get j = Some b \<and> price a \<le> price b))"
proof (intro conjI allI impI)
  show "map fst PRICING_DATA = [1, 2, 3, 4, 5]"
    by (simp add: PRICING_DATA_def)
  then show "distinct (map fst PRICING_DATA)"
    by simp
next
  fix n
  show "PRICING_DATA_get n \<noteq> None \<longleftrightarrow> 1 \<le> n \<and> n \<le> 5"
    by (auto simp: PRICING_DATA_get_def PRICING_DATA_def)
next
  fix i j :: int
  assume "1 \<le> i \<and> i \<le> j \<and> j \<le> 5"
  then have "i \<in> {1, 2, 3, 4, 5}" "j \<in> {1, 2, 3, 4, 5}" "i \<le> j"
    by auto
  then show "\<exists>a b. PRICING_DATA_get i = Some a \<and> PRICING_DATA_get j = Some b \<and> price a \<le> price b"
    by (auto simp: PRICING_DATA_get_simps)
qed

theorem pricing_table_monotone_witness:
  "(1::int) \<le> 2 \<and> (2::int) \<le> 4 \<and> (4::int) \<le> 5 \<and>
   (\<exists>a b. PRICING_DATA_get 2 = Some a \<and> PRICING_DATA_get 4 = Some b \<and> price a \<le> price b)"
  using pricing_table_monotone by simp

text \<open>
  C9, as the script has it.  After startup and any sequence of slider moves and toggle
  clicks, the toggle button carries the class \<^verbatim>\<open>active\<close> exactly when the billing flag is
  true, provided the markup does not give the button that class at the start or the
  sequence has a click in it.  The script sets the class in \<open>handleDiscountToggle\<close> only;
  \<open>initializeComponent\<close> does not touch it.
\<close>

theorem marker_follows_flag:
  assumes "''active'' \<notin> set d \<or> Click \<in> set es"
  shows "marked (run es (startup (Some v) (Some m) (Some r) (Some d))) =
         isYearlyBilling (run es (startup (Some v) (Some m) (Some r) (Some d)))"
proof (rule marked_run)
  show "wired (startup (Some v) (Some m) (Some r) (Some d))"
    by (rule wired_startup)
  from assms
  show "marked (startup (Some v) (Some m) (Some r) (Some d)) =
          isYearlyBilling (startup (Some v) (Some m) (Some r) (Some d)) \<or> Click \<in> set es"
    by (auto simp: startup_page marked_def)
qed

theorem marker_follows_flag_witness:
  "''active'' \<notin> set ([] :: string list) \<and>
   marked (run [Input 4, Click, Input 2] (startup (Some ''0'') (Some ''0'') (Some 1) (Some []))) =
   isYearlyBilling (run [Input 4, Click, Input 2]
     (startup (Some ''0'') (Some ''0'') (Some 1) (Some [])))"
proof -
  have h: "''active'' \<notin> set ([] :: string list) \<or> Click \<in> set [Input 4, Click, Input 2]"
    by simp
  from marker_follows_flag [OF h] show ?thesis
    by simp
qed

text \<open>
  When the markup gives the button the class \<^verbatim>\<open>active\<close>, the marker is present after
  startup and after a slider move, and the billing flag is false.
\<close>

theorem marker_follows_flag_counterexample:
  "marked (run [Input 4] (startup (Some ''0'') (Some ''0'') (Some 1) (Some [''active'']))) \<and>
   \<not> isYearlyBilling
       (run [Input 4] (startup (Some ''0'') (Some ''0'') (Some 1) (Some [''active''])))"
  by (simp add: startup_page marked_def handleRangeChange_def)

text \<open>
  C10.  For every value of the slider, \<open>updatePricing\<close> returns normally when the two
  display surfaces exist.  A value outside [1,5] keys no entry of the table, and for a
  value that keys no entry the call changes nothing: both display surfaces read what
  they read before.
\<close>

theorem updatePricing_never_throws:
  assumes "rangeInput p = Some x" "viewCount p \<noteq> None" "monthPrice p \<noteq> None"
  shows "fst (updatePricing p) = Normal \<and>
         (x < 1 \<or> 5 < x \<longrightarrow> PRICING_DATA_get x = None) \<and>
         (PRICING_DATA_get x = None \<longrightarrow>
            updatePricing p = (Normal, p) \<and>
            viewCount (snd (updatePricing p)) = viewCount p \<and>
            monthPrice (snd (updatePricing p)) = monthPrice p)"
proof (intro conjI impI)
  show "fst (updatePricing p) = Normal"
    using assms by (simp add: updatePricing_Normal)
  show "PRICING_DATA_get x = None" if "x < 1 \<or> 5 < x"
    using that by (rule PRICING_DATA_get_None)
  assume none: "PRICING_DATA_get x = None"
  with assms(1) show noop: "updatePricing p = (Normal, p)"
    by (rule updatePricing_no_entry)
  then show "viewCount (snd (updatePricing p)) = viewCount p"
    "monthPrice (snd (updatePricing p)) = monthPrice p"
    by simp_all
qed

theorem updatePricing_never_throws_witness:
  "rangeInput ((startup (Some ''0'') (Some ''0'') (Some 1) (Some []))\<lparr>rangeInput := Some 6\<rparr>) = Some 6 \<and>
   PRICING_DATA_get 6 = None \<and>
   updatePricing ((startup (Some ''0'') (Some ''0'') (Some 1) (Some []))\<lparr>rangeInput := Some 6\<rparr>) =
     (Normal, (startup (Some ''0'') (Some ''0'') (Some 1) (Some []))\<lparr>rangeInput := Some 6\<rparr>)"
proof -
  let ?p = "(startup (Some ''0'') (Some ''0'') (Some 1) (Some []))\<lparr>rangeInput := Some 6\<rparr>"
  have a: "rangeInput ?p = Some 6" "viewCount ?p \<noteq> None" "monthPrice ?p \<noteq> None"
    by (simp_all add: startup_page)
  from updatePricing_never_throws [OF a] a(1) show ?thesis
    by simp
qed

end
